theory Spec2Isabelle
  imports Main
begin

section \<open>Messages and the echo responder (sample1_basic_dialogue.py)\<close>

text \<open>
  The framework's message object, as the scripts use it: it is built from a sender name,
  a body and a role tag, and the scripts only ever read \<open>name\<close> and \<open>content\<close>.
  The role tag is the Python string the constructor is given. The identifier and the
  timestamp the framework attaches to a message are never read by the scripts and are
  left out.
\<close>

record Msg =
  name :: string
  content :: string
  role :: string

text \<open>
  Console output. Every \<open>print\<close> statement of the modelled code is one constructor;
  the fixed text of the statement (Japanese in the source) is given in English next to
  it, and the values the statement interpolates are the constructor's arguments.
\<close>

datatype out =
    Received_line string string
      \<comment> \<open>sample1, reply: "[<self.name>] received a message: '<x.content>'"\<close>
  | Terminated_line
      \<comment> \<open>all loops: "The dialogue ends."\<close>
  | Interrupted_line
      \<comment> \<open>all scripts with a handler: "The program was interrupted."\<close>
  | Error_line string
      \<comment> \<open>samples 2, 3, 4: "An error occurred: <e>"\<close>
  | Request_line string
      \<comment> \<open>sample4: "--- [User]'s request: ---" <user_msg.content> and a rule of 20 dashes\<close>
  | Planning_line
      \<comment> \<open>sample4: "--- [Planner] is drafting a plan... ---"\<close>
  | Plan_line string
      \<comment> \<open>sample4: "--- Plan proposed by [Planner]: ---" <plan_msg.content> and a rule\<close>
  | Reviewing_line
      \<comment> \<open>sample4: "--- [Critic] is reviewing the plan... ---"\<close>
  | Critique_line string
      \<comment> \<open>sample4: "--- Improvements proposed by [Critic]: ---" <critique_msg.content> and a rule\<close>
  | Final_header
      \<comment> \<open>sample4: "*** Final proposal ***"\<close>
  | Final_plan string
      \<comment> \<open>sample4: "[Plan]" followed by plan_msg.content\<close>
  | Final_critique string
      \<comment> \<open>sample4: "[Improvements]" followed by critique_msg.content\<close>
  | Final_footer
      \<comment> \<open>sample4: a row of stars\<close>
  | Next_task_line
      \<comment> \<open>sample4: "Enter the next task. ('exit' to quit)"\<close>

text \<open>
  \<open>class DialogueAgent(AgentBase)\<close>: the two attributes \<open>__init__\<close> stores. The
  record field is called \<open>agent_name\<close> because \<open>name\<close> is the field of \<open>Msg\<close>.
\<close>

record DialogueAgent =
  agent_name :: string
  response_text :: string

definition DialogueAgent_init :: "string \<Rightarrow> string \<Rightarrow> DialogueAgent" where
  "DialogueAgent_init nm txt = \<lparr>agent_name = nm, response_text = txt\<rparr>"

text \<open>
  \<open>DialogueAgent.reply\<close>: prints the received content, then builds and returns a new
  message. The result is the printed lines together with the returned message.
\<close>

definition reply :: "DialogueAgent \<Rightarrow> Msg \<Rightarrow> out list \<times> Msg" where
  "reply self x =
     ([Received_line (agent_name self) (content x)],
      \<lparr>name = agent_name self, content = response_text self, role = ''assistant''\<rparr>)"

section \<open>The environment of the dialogue loops\<close>

text \<open>
  The console-input responder (\<open>UserAgent\<close>) and the model-backed responders
  (\<open>ReActAgent\<close>) are objects of the external framework. A loop only awaits them:
  each \<open>await agent(...)\<close> either returns a message or raises. Python exceptions fall
  into the classes the handlers of the scripts and \<open>asyncio.run\<close> tell apart:
  \<open>KeyboardInterrupt\<close>, the instances of \<open>Exception\<close> (with the text \<open>str(e)\<close>
  that the handler prints), \<open>asyncio.CancelledError\<close> (an instance of
  \<open>BaseException\<close> only), and the remaining instances of \<open>BaseException\<close>, which no
  handler names.
\<close>

datatype exn =
    KeyboardInterrupt
  | Exception string
  | CancelledError
  | OtherBaseException string

datatype outcome = Returns Msg | Raises exn

datatype agent = UserAgent | AssistantAgent | PlannerAgent | CriticAgent

text \<open>
  What a run does, in order: a responder call begins with its argument (\<open>None\<close> for a
  call without a prior message), the awaited call hands back a message or an exception,
  the script prints a line.
\<close>

datatype event =
    Invoke agent "Msg option"
  | Returned Msg
  | Raised exn
  | Print out

text \<open>
  How \<open>main\<close> stands after the outcomes it was given: it left the loop through
  \<open>break\<close>, an exception left it, or it is suspended in an \<open>await\<close> whose outcome is
  not there yet. The environment is the list of the outcomes of the awaited calls, in the
  order in which the calls are made; a list that ends before the user types \<open>exit\<close>
  leaves the loop suspended in the call it has just begun.
\<close>

datatype status = Finished | Aborted exn | Suspended

section \<open>The two-party loops (main.py, sample2_with_llm.py, sample3_with_tool.py)\<close>

text \<open>
  sample2_with_llm.py, \<open>main\<close>, from \<open>msg = None\<close> on: the \<open>while True\<close> loop with
  its variable \<open>msg\<close>. The construction of the model and of the agents before the loop
  invokes no responder and is not part of the model.
\<close>

fun sample2_loop :: "Msg option \<Rightarrow> outcome list \<Rightarrow> event list \<times> status" where
  "sample2_loop msg [] = ([Invoke UserAgent msg], Suspended)"
| "sample2_loop msg (Raises e # rest) = ([Invoke UserAgent msg, Raised e], Aborted e)"
| "sample2_loop msg (Returns m # rest) =
     (if content m = ''exit''
      then ([Invoke UserAgent msg, Returned m, Print Terminated_line], Finished)
      else (case rest of
          [] \<Rightarrow>
            ([Invoke UserAgent msg, Returned m, Invoke AssistantAgent (Some m)], Suspended)
        | Raises e # rest' \<Rightarrow>
            ([Invoke UserAgent msg, Returned m, Invoke AssistantAgent (Some m), Raised e],
             Aborted e)
        | Returns assistant_response # rest' \<Rightarrow>
            (case sample2_loop (Some assistant_response) rest' of (t, s) \<Rightarrow>
              ([Invoke UserAgent msg, Returned m,
                Invoke AssistantAgent (Some m), Returned assistant_response] @ t, s))))"

definition sample2_main :: "outcome list \<Rightarrow> event list \<times> status" where
  "sample2_main env = sample2_loop None env"

text \<open>
  sample3_with_tool.py, \<open>main\<close>, from \<open>msg = None\<close> on. The tool is called by the
  framework inside the assistant's turn, not by the loop.
\<close>

fun sample3_loop :: "Msg option \<Rightarrow> outcome list \<Rightarrow> event list \<times> status" where
  "sample3_loop msg [] = ([Invoke UserAgent msg], Suspended)"
| "sample3_loop msg (Raises e # rest) = ([Invoke UserAgent msg, Raised e], Aborted e)"
| "sample3_loop msg (Returns m # rest) =
     (if content m = ''exit''
      then ([Invoke UserAgent msg, Returned m, Print Terminated_line], Finished)
      else (case rest of
          [] \<Rightarrow>
            ([Invoke UserAgent msg, Returned m, Invoke AssistantAgent (Some m)], Suspended)
        | Raises e # rest' \<Rightarrow>
            ([Invoke UserAgent msg, Returned m, Invoke AssistantAgent (Some m), Raised e],
             Aborted e)
        | Returns assistant_response # rest' \<Rightarrow>
            (case sample3_loop (Some assistant_response) rest' of (t, s) \<Rightarrow>
              ([Invoke UserAgent msg, Returned m,
                Invoke AssistantAgent (Some m), Returned assistant_response] @ t, s))))"

definition sample3_main :: "outcome list \<Rightarrow> event list \<times> status" where
  "sample3_main env = sample3_loop None env"

text \<open>
  main.py, \<open>main\<close>, from \<open>msg = None\<close> on. The assistant's answer is assigned to
  \<open>msg\<close> directly.
\<close>

fun main_py_loop :: "Msg option \<Rightarrow> outcome list \<Rightarrow> event list \<times> status" where
  "main_py_loop msg [] = ([Invoke UserAgent msg], Suspended)"
| "main_py_loop msg (Raises e # rest) = ([Invoke UserAgent msg, Raised e], Aborted e)"
| "main_py_loop msg (Returns m # rest) =
     (if content m = ''exit''
      then ([Invoke UserAgent msg, Returned m, Print Terminated_line], Finished)
      else (case rest of
          [] \<Rightarrow>
            ([Invoke UserAgent msg, Returned m, Invoke AssistantAgent (Some m)], Suspended)
        | Raises e # rest' \<Rightarrow>
            ([Invoke UserAgent msg, Returned m, Invoke AssistantAgent (Some m), Raised e],
             Aborted e)
        | Returns m' # rest' \<Rightarrow>
            (case main_py_loop (Some m') rest' of (t, s) \<Rightarrow>
              ([Invoke UserAgent msg, Returned m,
                Invoke AssistantAgent (Some m), Returned m'] @ t, s))))"

definition main_py_main :: "outcome list \<Rightarrow> event list \<times> status" where
  "main_py_main env = main_py_loop None env"

section \<open>The relay loop (sample4_multi_agent.py)\<close>

text \<open>
  sample4_multi_agent.py, \<open>main\<close>, from \<open>while True\<close> on. The loop has no variable
  that outlives a round: \<open>user_agent()\<close> is called without an argument, the planner is
  given \<open>user_msg\<close> and the critic \<open>plan_msg\<close>.
\<close>

fun sample4_loop :: "outcome list \<Rightarrow> event list \<times> status" where
  "sample4_loop [] = ([Invoke UserAgent None], Suspended)"
| "sample4_loop (Raises e # rest) = ([Invoke UserAgent None, Raised e], Aborted e)"
| "sample4_loop (Returns user_msg # rest) =
     (if content user_msg = ''exit''
      then ([Invoke UserAgent None, Returned user_msg, Print Terminated_line], Finished)
      else (case rest of
          [] \<Rightarrow>
            ([Invoke UserAgent None, Returned user_msg,
              Print (Request_line (content user_msg)), Print Planning_line,
              Invoke PlannerAgent (Some user_msg)], Suspended)
        | Raises e # rest' \<Rightarrow>
            ([Invoke UserAgent None, Returned user_msg,
              Print (Request_line (content user_msg)), Print Planning_line,
              Invoke PlannerAgent (Some user_msg), Raised e], Aborted e)
        | Returns plan_msg # rest' \<Rightarrow>
            (case rest' of
                [] \<Rightarrow>
                  ([Invoke UserAgent None, Returned user_msg,
                    Print (Request_line (content user_msg)), Print Planning_line,
                    Invoke PlannerAgent (Some user_msg), Returned plan_msg,
                    Print (Plan_line (content plan_msg)), Print Reviewing_line,
                    Invoke CriticAgent (Some plan_msg)], Suspended)
              | Raises e # rest'' \<Rightarrow>
                  ([Invoke UserAgent None, Returned user_msg,
                    Print (Request_line (content user_msg)), Print Planning_line,
                    Invoke PlannerAgent (Some user_msg), Returned plan_msg,
                    Print (Plan_line (content plan_msg)), Print Reviewing_line,
                    Invoke CriticAgent (Some plan_msg), Raised e], Aborted e)
              | Returns critique_msg # rest'' \<Rightarrow>
                  (case sample4_loop rest'' of (t, s) \<Rightarrow>
                    ([Invoke UserAgent None, Returned user_msg,
                      Print (Request_line (content user_msg)), Print Planning_line,
                      Invoke PlannerAgent (Some user_msg), Returned plan_msg,
                      Print (Plan_line (content plan_msg)), Print Reviewing_line,
                      Invoke CriticAgent (Some plan_msg), Returned critique_msg,
                      Print (Critique_line (content critique_msg)),
                      Print Final_header,
                      Print (Final_plan (content plan_msg)),
                      Print (Final_critique (content critique_msg)),
                      Print Final_footer, Print Next_task_line] @ t, s)))))"

definition sample4_main :: "outcome list \<Rightarrow> event list \<times> status" where
  "sample4_main env = sample4_loop env"

section \<open>The scripts' entry points\<close>

text \<open>
  How the process ends: the script runs to its end (also after a handler has printed its
  line), an exception nobody caught ends the interpreter with a traceback, or the process
  is still waiting in an \<open>await\<close>.
\<close>

datatype process = Exited | Uncaught exn | Waiting

text \<open>
  The \<open>try\<close> statement in the \<open>if __name__ == "__main__"\<close> block of samples 2, 3
  and 4, with the handlers \<open>except KeyboardInterrupt\<close> and \<open>except Exception as e\<close>.
  Its argument is the way \<open>asyncio.run(main())\<close> ends.
\<close>

fun try_interrupt_and_exception :: "event list \<times> status \<Rightarrow> event list \<times> process" where
  "try_interrupt_and_exception (t, Finished) = (t, Exited)"
| "try_interrupt_and_exception (t, Suspended) = (t, Waiting)"
| "try_interrupt_and_exception (t, Aborted KeyboardInterrupt) =
     (t @ [Print Interrupted_line], Exited)"
| "try_interrupt_and_exception (t, Aborted (Exception e)) =
     (t @ [Print (Error_line e)], Exited)"
| "try_interrupt_and_exception (t, Aborted CancelledError) = (t, Uncaught CancelledError)"
| "try_interrupt_and_exception (t, Aborted (OtherBaseException e)) =
     (t, Uncaught (OtherBaseException e))"

text \<open>
  The \<open>try\<close> statement in the \<open>if __name__ == "__main__"\<close> block of main.py,
  with the single handler \<open>except KeyboardInterrupt\<close>.
\<close>

fun try_interrupt_only :: "event list \<times> status \<Rightarrow> event list \<times> process" where
  "try_interrupt_only (t, Finished) = (t, Exited)"
| "try_interrupt_only (t, Suspended) = (t, Waiting)"
| "try_interrupt_only (t, Aborted KeyboardInterrupt) =
     (t @ [Print Interrupted_line], Exited)"
| "try_interrupt_only (t, Aborted (Exception e)) = (t, Uncaught (Exception e))"
| "try_interrupt_only (t, Aborted CancelledError) = (t, Uncaught CancelledError)"
| "try_interrupt_only (t, Aborted (OtherBaseException e)) =
     (t, Uncaught (OtherBaseException e))"

text \<open>
  The scripts in the runs in which the operator never interrupts: there
  \<open>asyncio.run(main())\<close> ends the way \<open>main\<close> ends.
\<close>

definition main_py_script :: "outcome list \<Rightarrow> event list \<times> process" where
  "main_py_script env = try_interrupt_only (main_py_main env)"

definition sample2_script :: "outcome list \<Rightarrow> event list \<times> process" where
  "sample2_script env = try_interrupt_and_exception (sample2_main env)"

definition sample3_script :: "outcome list \<Rightarrow> event list \<times> process" where
  "sample3_script env = try_interrupt_and_exception (sample3_main env)"

definition sample4_script :: "outcome list \<Rightarrow> event list \<times> process" where
  "sample4_script env = try_interrupt_and_exception (sample4_main env)"

section \<open>asyncio.run and the operator's interrupt\<close>

text \<open>
  \<open>asyncio.run(main())\<close> runs \<open>main\<close> as a task of an event loop, and since Python
  3.11 it handles the operator's interrupt (SIGINT) itself (\<open>Runner.run\<close> and
  \<open>Runner._on_sigint\<close> in \<open>asyncio/runners.py\<close>, \<open>Task.cancel\<close> and
  \<open>Task.__step\<close> in \<open>asyncio/tasks.py\<close>):
  \<^item> the first interrupt of a run does not raise anything: the handler counts it and
    requests the cancellation of the main task;
  \<^item> a requested cancellation is thrown, as \<open>CancelledError\<close>, into the call the task
    is waiting in; the call may let it through, or catch it and hand back a message or
    another exception. While the task does not wait on a future (the call blocks the
    thread, as a console read does), the request stays pending (\<open>_must_cancel\<close>);
  \<^item> a task whose coroutine returns while a request is pending ends cancelled, as does a
    task whose coroutine ends with \<open>CancelledError\<close>; when the task ends cancelled
    and an interrupt has been counted, \<open>asyncio.run\<close> raises \<open>KeyboardInterrupt\<close>,
    otherwise it raises the \<open>CancelledError\<close>. Any other end of the task is passed on
    as it is.

  The model follows the runs in which the operator interrupts at most once; what a
  further interrupt does is not modelled. The environment says for each awaited call,
  in order, whether a requested cancellation is thrown into the call and what the call
  hands back in the end; the interrupt, if there is one, is given by the number of the
  awaited call (counted from 0) during which it arrives.
\<close>

datatype turn = Turn bool outcome

record runner =
  interrupt_count :: nat
  must_cancel :: bool

definition fresh_runner :: runner where
  "fresh_runner = \<lparr>interrupt_count = 0, must_cancel = False\<rparr>"

text \<open>What the awaited calls hand back to \<open>main\<close>, one after the other.\<close>

fun hands_back :: "turn list \<Rightarrow> outcome list" where
  "hands_back [] = []"
| "hands_back (Turn thrown res # tns) = res # hands_back tns"

text \<open>
  The runner after one awaited call; \<open>sigint\<close> tells whether the operator interrupts
  during this call.
\<close>

fun on_turn :: "bool \<Rightarrow> runner \<Rightarrow> turn \<Rightarrow> runner" where
  "on_turn sigint rn (Turn thrown res) =
     \<lparr>interrupt_count = (if sigint then Suc (interrupt_count rn) else interrupt_count rn),
      must_cancel = ((must_cancel rn \<or> sigint) \<and> \<not> thrown)\<rparr>"

text \<open>
  The runner after the first \<open>n\<close> awaited calls have been answered, when the operator
  interrupts during call number \<open>k\<close> of the calls still to come (\<open>None\<close>: never).
\<close>

fun runner_after :: "nat \<Rightarrow> nat option \<Rightarrow> runner \<Rightarrow> turn list \<Rightarrow> runner" where
  "runner_after 0 k rn tns = rn"
| "runner_after (Suc n) k rn [] = rn"
| "runner_after (Suc n) None rn (tn # tns) = runner_after n None (on_turn False rn tn) tns"
| "runner_after (Suc n) (Some 0) rn (tn # tns) = runner_after n None (on_turn True rn tn) tns"
| "runner_after (Suc n) (Some (Suc k)) rn (tn # tns) =
     runner_after n (Some k) (on_turn False rn tn) tns"

text \<open>How many awaited calls of a run have handed back a message or an exception.\<close>

fun answered :: "event list \<Rightarrow> nat" where
  "answered [] = 0"
| "answered (Invoke a x # t) = answered t"
| "answered (Returned m # t) = Suc (answered t)"
| "answered (Raised e # t) = Suc (answered t)"
| "answered (Print p # t) = answered t"

text \<open>
  The end of the main task as \<open>asyncio.run\<close> passes it on to the script.
\<close>

fun task_end :: "runner \<Rightarrow> event list \<times> status \<Rightarrow> event list \<times> status" where
  "task_end rn (t, Finished) =
     (if must_cancel rn
      then (if 0 < interrupt_count rn then (t, Aborted KeyboardInterrupt)
            else (t, Aborted CancelledError))
      else (t, Finished))"
| "task_end rn (t, Aborted CancelledError) =
     (if 0 < interrupt_count rn then (t, Aborted KeyboardInterrupt)
      else (t, Aborted CancelledError))"
| "task_end rn (t, Aborted KeyboardInterrupt) = (t, Aborted KeyboardInterrupt)"
| "task_end rn (t, Aborted (Exception e)) = (t, Aborted (Exception e))"
| "task_end rn (t, Aborted (OtherBaseException e)) = (t, Aborted (OtherBaseException e))"
| "task_end rn (t, Suspended) = (t, Suspended)"

text \<open>
  \<open>asyncio.run(main())\<close>, the operator interrupting during call number \<open>k\<close>:
  \<open>main\<close> runs on what its awaited calls hand back; the runner is the one after the
  calls that \<open>main\<close> has seen answered.
\<close>

definition asyncio_run ::
  "(outcome list \<Rightarrow> event list \<times> status) \<Rightarrow> nat option \<Rightarrow> turn list \<Rightarrow>
     event list \<times> status" where
  "asyncio_run main k tns =
     task_end (runner_after (answered (fst (main (hands_back tns)))) k fresh_runner tns)
       (main (hands_back tns))"

text \<open>The \<open>if __name__ == "__main__"\<close> blocks, with the operator's interrupt.\<close>

definition main_py_entry :: "nat option \<Rightarrow> turn list \<Rightarrow> event list \<times> process" where
  "main_py_entry k tns = try_interrupt_only (asyncio_run main_py_main k tns)"

definition sample2_entry :: "nat option \<Rightarrow> turn list \<Rightarrow> event list \<times> process" where
  "sample2_entry k tns = try_interrupt_and_exception (asyncio_run sample2_main k tns)"

definition sample3_entry :: "nat option \<Rightarrow> turn list \<Rightarrow> event list \<times> process" where
  "sample3_entry k tns = try_interrupt_and_exception (asyncio_run sample3_main k tns)"

definition sample4_entry :: "nat option \<Rightarrow> turn list \<Rightarrow> event list \<times> process" where
  "sample4_entry k tns = try_interrupt_and_exception (asyncio_run sample4_main k tns)"

section \<open>Observations on a run\<close>

text \<open>
  \<open>one_in_flight s t\<close> reads a run from the left. The slot \<open>s\<close> tells how the
  responder calls stand: \<open>Free\<close>, no call is outstanding and every call made so far
  has handed back its message; \<open>Taken\<close>, a call is outstanding; \<open>Closed\<close>, a call
  has ended with an exception, so its result will never be there. A call may begin only
  on a free slot, that is at the start of the run or after the call before it has
  handed back its message. A message or an exception may arrive only for an outstanding
  call, and the script prints only when no call is outstanding. \<open>invoked t\<close> lists the
  responders in the order in which their calls begin.
\<close>

datatype slot = Free | Taken | Closed

fun one_in_flight :: "slot \<Rightarrow> event list \<Rightarrow> bool" where
  "one_in_flight s [] = True"
| "one_in_flight s (Invoke a x # t) = (s = Free \<and> one_in_flight Taken t)"
| "one_in_flight s (Returned m # t) = (s = Taken \<and> one_in_flight Free t)"
| "one_in_flight s (Raised e # t) = (s = Taken \<and> one_in_flight Closed t)"
| "one_in_flight s (Print p # t) = (s \<noteq> Taken \<and> one_in_flight s t)"

fun invoked :: "event list \<Rightarrow> agent list" where
  "invoked [] = []"
| "invoked (Invoke a x # t) = a # invoked t"
| "invoked (Returned m # t) = invoked t"
| "invoked (Raised e # t) = invoked t"
| "invoked (Print p # t) = invoked t"

text \<open>
  Messages for concrete runs: what the console-input responder hands back for a typed
  line, and an answer of a model-backed responder.
\<close>

definition typed :: "string \<Rightarrow> Msg" where
  "typed line = \<lparr>name = ''User'', content = line, role = ''user''\<rparr>"

definition answer :: "string \<Rightarrow> string \<Rightarrow> Msg" where
  "answer who body = \<lparr>name = who, content = body, role = ''assistant''\<rparr>"

section \<open>Properties of the echo responder\<close>

text \<open>
  Claim C2. For every input message \<open>x\<close>, the message returned by the echo responder's
  \<open>reply\<close> has as content the response text the responder was constructed with, and
  the returned message is the same for any two inputs: the input only reaches the
  printed line, never the returned message.
\<close>

theorem reply_content_fixed:
  "content (snd (reply (DialogueAgent_init nm txt) x)) = txt
   \<and> snd (reply (DialogueAgent_init nm txt) x) = snd (reply (DialogueAgent_init nm txt) y)
   \<and> fst (reply (DialogueAgent_init nm txt) x) = [Received_line nm (content x)]"
  by (simp add: reply_def DialogueAgent_init_def)

text \<open>
  Claim C10. For every input message, the message returned by the echo responder's
  \<open>reply\<close> has the role tag \<open>assistant\<close> and the sender name the responder was
  constructed with, whatever the sender of the incoming message is.
\<close>

theorem reply_role_and_sender:
  "role (snd (reply (DialogueAgent_init nm txt) x)) = ''assistant''
   \<and> name (snd (reply (DialogueAgent_init nm txt) x)) = nm"
  by (simp add: reply_def DialogueAgent_init_def)

section \<open>The loops of the three two-party scripts coincide\<close>

lemma sample3_loop_eq: "sample3_loop msg env = sample2_loop msg env"
  by (induction msg env rule: sample2_loop.induct) (auto split: list.splits outcome.splits)

lemma main_py_loop_eq: "main_py_loop msg env = sample2_loop msg env"
  by (induction msg env rule: sample2_loop.induct) (auto split: list.splits outcome.splits)

lemma sample3_main_eq: "sample3_main env = sample2_main env"
  by (simp add: sample3_main_def sample2_main_def sample3_loop_eq)

lemma main_py_main_eq: "main_py_main env = sample2_main env"
  by (simp add: main_py_main_def sample2_main_def main_py_loop_eq)

section \<open>Every iteration begins at the console\<close>

lemma sample2_loop_head: "\<exists>t. fst (sample2_loop msg env) = Invoke UserAgent msg # t"
  by (induction msg env rule: sample2_loop.induct)
    (auto split: list.splits outcome.splits prod.splits)

lemma sample4_loop_head: "\<exists>t. fst (sample4_loop env) = Invoke UserAgent None # t"
  by (induction env rule: sample4_loop.induct)
    (auto split: list.splits outcome.splits prod.splits)

lemma sample2_loop_nonempty: "fst (sample2_loop msg env) \<noteq> []"
  using sample2_loop_head [of msg env] by auto

lemma sample4_loop_nonempty: "fst (sample4_loop env) \<noteq> []"
  using sample4_loop_head [of env] by auto

section \<open>Extending a suspended run\<close>

text \<open>
  A run that is suspended in an \<open>await\<close> goes on with the next outcome. When that
  outcome is an exception, the exception leaves the loop, whichever call was awaited.
\<close>

lemma sample2_loop_raise:
  "snd (sample2_loop msg pre) = Suspended \<Longrightarrow>
   sample2_loop msg (pre @ Raises e # post) =
     (fst (sample2_loop msg pre) @ [Raised e], Aborted e)"
  by (induction msg pre rule: sample2_loop.induct)
    (auto split: list.splits outcome.splits prod.splits if_splits)

lemma sample4_loop_raise:
  "snd (sample4_loop pre) = Suspended \<Longrightarrow>
   sample4_loop (pre @ Raises e # post) = (fst (sample4_loop pre) @ [Raised e], Aborted e)"
  by (induction pre rule: sample4_loop.induct)
    (auto split: list.splits outcome.splits prod.splits if_splits)

text \<open>
  When the awaited call is the console's, the run goes on as the loop does from the top
  of an iteration, with the console's argument as the current message.
\<close>

lemma sample2_loop_resume:
  "snd (sample2_loop msg pre) = Suspended \<Longrightarrow>
   last (fst (sample2_loop msg pre)) = Invoke UserAgent x \<Longrightarrow>
   sample2_loop msg (pre @ env) =
     (butlast (fst (sample2_loop msg pre)) @ fst (sample2_loop x env),
      snd (sample2_loop x env))"
proof (induction msg pre rule: sample2_loop.induct)
  case (1 msg)
  then show ?case by simp
next
  case (2 msg e rest)
  then show ?case by simp
next
  case (3 msg m rest)
  show ?case
  proof (cases "content m = ''exit''")
    case True
    with 3 show ?thesis by simp
  next
    case ne: False
    show ?thesis
    proof (cases rest)
      case Nil
      with 3 ne show ?thesis by simp
    next
      case (Cons o1 rest')
      show ?thesis
      proof (cases o1)
        case (Raises e)
        with 3 ne Cons show ?thesis by simp
      next
        case (Returns r)
        have ne': "fst (sample2_loop (Some r) rest') \<noteq> []"
          by (rule sample2_loop_nonempty)
        from 3(2,3) ne Cons Returns ne'
        have s: "snd (sample2_loop (Some r) rest') = Suspended"
          and l: "last (fst (sample2_loop (Some r) rest')) = Invoke UserAgent x"
          by (auto split: prod.splits)
        from 3(1) [OF ne Cons Returns s l] ne Cons Returns ne'
        show ?thesis by (auto split: prod.splits simp: butlast_append)
      qed
    qed
  qed
qed

lemma sample4_loop_resume:
  "snd (sample4_loop pre) = Suspended \<Longrightarrow>
   last (fst (sample4_loop pre)) = Invoke UserAgent x \<Longrightarrow>
   sample4_loop (pre @ env) =
     (butlast (fst (sample4_loop pre)) @ fst (sample4_loop env), snd (sample4_loop env))"
proof (induction pre rule: sample4_loop.induct)
  case 1
  then show ?case by simp
next
  case (2 e rest)
  then show ?case by simp
next
  case (3 u rest)
  show ?case
  proof (cases "content u = ''exit''")
    case True
    with 3 show ?thesis by simp
  next
    case ne: False
    show ?thesis
    proof (cases rest)
      case Nil
      with 3 ne show ?thesis by simp
    next
      case c1: (Cons o1 rest')
      show ?thesis
      proof (cases o1)
        case (Raises e)
        with 3 ne c1 show ?thesis by simp
      next
        case p: (Returns p)
        show ?thesis
        proof (cases rest')
          case Nil
          with 3 ne c1 p show ?thesis by simp
        next
          case c2: (Cons o2 rest'')
          show ?thesis
          proof (cases o2)
            case (Raises e)
            with 3 ne c1 p c2 show ?thesis by simp
          next
            case c: (Returns c)
            have ne': "fst (sample4_loop rest'') \<noteq> []"
              by (rule sample4_loop_nonempty)
            from 3(2,3) ne c1 p c2 c ne'
            have s: "snd (sample4_loop rest'') = Suspended"
              and l: "last (fst (sample4_loop rest'')) = Invoke UserAgent x"
              by (auto split: prod.splits)
            from 3(1) [OF ne c1 p c2 c s l] ne c1 p c2 c ne'
            show ?thesis by (auto split: prod.splits simp: butlast_append)
          qed
        qed
      qed
    qed
  qed
qed

text \<open>The same, with the run so far kept whole: only the new events are appended.\<close>

lemma sample2_main_resume:
  assumes "snd (sample2_main pre) = Suspended"
    and "last (fst (sample2_main pre)) = Invoke UserAgent x"
  shows "sample2_main (pre @ env) =
     (fst (sample2_main pre) @ tl (fst (sample2_loop x env)), snd (sample2_loop x env))"
proof -
  obtain t where t: "fst (sample2_loop x env) = Invoke UserAgent x # t"
    using sample2_loop_head by blast
  have "fst (sample2_main pre) \<noteq> []"
    by (simp add: sample2_main_def sample2_loop_nonempty)
  with assms(2) have "butlast (fst (sample2_main pre)) @ [Invoke UserAgent x] =
      fst (sample2_main pre)"
    by (metis append_butlast_last_id)
  then have "butlast (fst (sample2_main pre)) @ fst (sample2_loop x env) =
      fst (sample2_main pre) @ tl (fst (sample2_loop x env))"
    using t by (metis append_Cons append_Nil append_assoc list.sel(3))
  with sample2_loop_resume [of None pre x env] assms show ?thesis
    by (simp add: sample2_main_def)
qed

lemma sample4_last_console:
  "last (fst (sample4_loop pre)) = Invoke UserAgent x \<Longrightarrow> x = None"
  by (induction pre rule: sample4_loop.induct)
    (auto split: list.splits outcome.splits prod.splits if_splits
      simp: sample4_loop_nonempty)

lemma sample4_main_resume:
  assumes "snd (sample4_main pre) = Suspended"
    and "last (fst (sample4_main pre)) = Invoke UserAgent x"
  shows "sample4_main (pre @ env) =
     (fst (sample4_main pre) @ tl (fst (sample4_loop env)), snd (sample4_loop env))"
proof -
  obtain t where t: "fst (sample4_loop env) = Invoke UserAgent None # t"
    using sample4_loop_head by blast
  have ne: "fst (sample4_main pre) \<noteq> []"
    by (simp add: sample4_main_def sample4_loop_nonempty)
  have x: "x = None"
    using assms(2) sample4_last_console [of pre x] by (simp add: sample4_main_def)
  with assms(2) ne have "butlast (fst (sample4_main pre)) @ [Invoke UserAgent None] =
      fst (sample4_main pre)"
    by (metis append_butlast_last_id)
  then have "butlast (fst (sample4_main pre)) @ fst (sample4_loop env) =
      fst (sample4_main pre) @ tl (fst (sample4_loop env))"
    using t by (metis append_Cons append_Nil append_assoc list.sel(3))
  with sample4_loop_resume [of pre x env] assms show ?thesis
    by (simp add: sample4_main_def)
qed

section \<open>The termination check\<close>

text \<open>
  Claim C1. Whenever a two-party loop (sample2_with_llm.py, main.py) waits at the
  console, in its first or in any later iteration, and the console hands back the message
  \<open>m\<close>: the loop stops right there, printing its termination line, if and only if the
  content of \<open>m\<close> is exactly the string \<open>exit\<close>; and when the content is anything
  else, the next thing the loop does is to invoke the assistant with \<open>m\<close>.
\<close>

theorem exit_check_exact:
  assumes "snd (sample2_main pre) = Suspended"
    and "last (fst (sample2_main pre)) = Invoke UserAgent x"
  shows "((sample2_main (pre @ Returns m # rest) =
            (fst (sample2_main pre) @ [Returned m, Print Terminated_line], Finished))
          = (content m = ''exit''))
       \<and> ((main_py_main (pre @ Returns m # rest) =
            (fst (main_py_main pre) @ [Returned m, Print Terminated_line], Finished))
          = (content m = ''exit''))
       \<and> (content m \<noteq> ''exit'' \<longrightarrow>
            (\<exists>t. fst (sample2_main (pre @ Returns m # rest)) =
                   fst (sample2_main pre) @ [Returned m, Invoke AssistantAgent (Some m)] @ t)
          \<and> (\<exists>t. fst (main_py_main (pre @ Returns m # rest)) =
                   fst (main_py_main pre) @ [Returned m, Invoke AssistantAgent (Some m)] @ t))"
proof -
  note step = sample2_main_resume [OF assms, of "Returns m # rest"]
  have halt: "content m = ''exit'' \<Longrightarrow>
      sample2_main (pre @ Returns m # rest) =
        (fst (sample2_main pre) @ [Returned m, Print Terminated_line], Finished)"
    using step by simp
  have forward: "\<exists>t. fst (sample2_main (pre @ Returns m # rest)) =
      fst (sample2_main pre) @ [Returned m, Invoke AssistantAgent (Some m)] @ t"
    if "content m \<noteq> ''exit''"
    using step that by (cases rest) (auto split: outcome.splits prod.splits)
  have differ: "sample2_main (pre @ Returns m # rest) \<noteq>
      (fst (sample2_main pre) @ [Returned m, Print Terminated_line], Finished)"
    if "content m \<noteq> ''exit''"
    using forward [OF that] by auto
  from halt forward differ show ?thesis
    by (auto simp: main_py_main_eq)
qed

theorem exit_check_exact_witness:
  "sample2_main [Returns (typed ''exit''), Returns (answer ''Assistant'' ''never asked'')] =
     ([Invoke UserAgent None, Returned (typed ''exit''), Print Terminated_line], Finished)
   \<and> (\<exists>t. fst (sample2_main [Returns (typed ''Exit'')]) =
        [Invoke UserAgent None, Returned (typed ''Exit''),
         Invoke AssistantAgent (Some (typed ''Exit''))] @ t)
   \<and> (\<exists>t. fst (main_py_main [Returns (typed '' exit '')]) =
        [Invoke UserAgent None, Returned (typed '' exit ''),
         Invoke AssistantAgent (Some (typed '' exit ''))] @ t)
   \<and> sample2_main [Returns (typed ''Exit'')] \<noteq>
        ([Invoke UserAgent None, Returned (typed ''Exit''), Print Terminated_line], Finished)"
proof -
  have s: "snd (sample2_main []) = Suspended"
    and l: "last (fst (sample2_main [])) = Invoke UserAgent None"
    by (simp_all add: sample2_main_def)
  have e0: "fst (sample2_main []) = [Invoke UserAgent None]"
    and e1: "fst (main_py_main []) = [Invoke UserAgent None]"
    by (simp_all add: sample2_main_def main_py_main_def)
  show ?thesis
    using exit_check_exact [OF s l, of "typed ''exit''"
        "[Returns (answer ''Assistant'' ''never asked'')]"]
      exit_check_exact [OF s l, of "typed ''Exit''" "[]"]
      exit_check_exact [OF s l, of "typed '' exit ''" "[]"]
    by (simp add: e0 e1 typed_def)
qed

text \<open>
  Claim C3. When the very first message the console hands back has the content
  \<open>exit\<close>, the script prints its termination line and ends; the console's call is
  the only responder call of the run, so no model-backed responder is invoked
  (sample2_with_llm.py and sample4_multi_agent.py; the other two scripts alike).
\<close>

theorem exit_first_invokes_nobody:
  assumes "content m = ''exit''"
  shows "sample2_script (Returns m # rest) =
           ([Invoke UserAgent None, Returned m, Print Terminated_line], Exited)
       \<and> sample4_script (Returns m # rest) =
           ([Invoke UserAgent None, Returned m, Print Terminated_line], Exited)
       \<and> sample3_script (Returns m # rest) =
           ([Invoke UserAgent None, Returned m, Print Terminated_line], Exited)
       \<and> main_py_script (Returns m # rest) =
           ([Invoke UserAgent None, Returned m, Print Terminated_line], Exited)
       \<and> invoked (fst (sample2_script (Returns m # rest))) = [UserAgent]
       \<and> invoked (fst (sample4_script (Returns m # rest))) = [UserAgent]"
  using assms
  by (simp add: sample2_script_def sample3_script_def sample4_script_def main_py_script_def
      sample2_main_def sample3_main_def sample4_main_def main_py_main_def)

theorem exit_first_invokes_nobody_witness:
  "content (typed ''exit'') = ''exit''
   \<and> sample2_script [Returns (typed ''exit''), Returns (answer ''Assistant'' ''unused'')] =
       ([Invoke UserAgent None, Returned (typed ''exit''), Print Terminated_line], Exited)
   \<and> invoked (fst (sample4_script [Returns (typed ''exit''),
         Returns (answer ''Planner'' ''unused'')])) = [UserAgent]"
proof -
  have c: "content (typed ''exit'') = ''exit''"
    by (simp add: typed_def)
  show ?thesis
    using c exit_first_invokes_nobody [OF c, of "[Returns (answer ''Assistant'' ''unused'')]"]
      exit_first_invokes_nobody [OF c, of "[Returns (answer ''Planner'' ''unused'')]"]
    by simp
qed

section \<open>What is handed to whom\<close>

text \<open>
  Claim C5. In the two-party loops (sample2_with_llm.py, main.py), in any iteration:
  when the loop waits at the console, the console hands back a message \<open>m\<close> other than
  \<open>exit\<close> and the assistant answers \<open>m\<close> with \<open>r\<close>, then the next call of the
  console-input responder is made with \<open>r\<close> as its prior message, and the run goes
  on as the loop does with \<open>r\<close> as its current message.
\<close>

theorem answer_carried_forward:
  assumes "snd (sample2_main pre) = Suspended"
    and "last (fst (sample2_main pre)) = Invoke UserAgent x"
    and "content m \<noteq> ''exit''"
  shows "(\<exists>t. sample2_main (pre @ Returns m # Returns r # rest) =
            (fst (sample2_main pre) @
               [Returned m, Invoke AssistantAgent (Some m), Returned r,
                Invoke UserAgent (Some r)] @ t,
             snd (sample2_loop (Some r) rest))
          \<and> fst (sample2_loop (Some r) rest) = Invoke UserAgent (Some r) # t)
       \<and> (\<exists>t. main_py_main (pre @ Returns m # Returns r # rest) =
            (fst (main_py_main pre) @
               [Returned m, Invoke AssistantAgent (Some m), Returned r,
                Invoke UserAgent (Some r)] @ t,
             snd (main_py_loop (Some r) rest))
          \<and> fst (main_py_loop (Some r) rest) = Invoke UserAgent (Some r) # t)"
proof -
  obtain t where t: "fst (sample2_loop (Some r) rest) = Invoke UserAgent (Some r) # t"
    using sample2_loop_head by blast
  have "sample2_main (pre @ Returns m # Returns r # rest) =
      (fst (sample2_main pre) @
         [Returned m, Invoke AssistantAgent (Some m), Returned r,
          Invoke UserAgent (Some r)] @ t,
       snd (sample2_loop (Some r) rest))"
    using sample2_main_resume [OF assms(1,2), of "Returns m # Returns r # rest"] assms(3) t
    by (simp split: prod.splits)
  with t show ?thesis
    by (auto simp: main_py_main_eq main_py_loop_eq)
qed

theorem answer_carried_forward_witness:
  "snd (sample2_main []) = Suspended
   \<and> last (fst (sample2_main [])) = Invoke UserAgent None
   \<and> content (typed ''Hi'') \<noteq> ''exit''
   \<and> sample2_main [Returns (typed ''Hi''), Returns (answer ''Assistant'' ''Hello!'')] =
       ([Invoke UserAgent None, Returned (typed ''Hi''),
         Invoke AssistantAgent (Some (typed ''Hi'')),
         Returned (answer ''Assistant'' ''Hello!''),
         Invoke UserAgent (Some (answer ''Assistant'' ''Hello!''))], Suspended)"
proof -
  have s: "snd (sample2_main []) = Suspended"
    and l: "last (fst (sample2_main [])) = Invoke UserAgent None"
    by (simp_all add: sample2_main_def)
  have c: "content (typed ''Hi'') \<noteq> ''exit''"
    by (simp add: typed_def)
  show ?thesis
    using s l c answer_carried_forward [OF s l c, of "answer ''Assistant'' ''Hello!''" "[]"]
    by (simp add: sample2_main_def)
qed

text \<open>
  Claim C6. In every script with a loop, the first thing a run does is to invoke the
  console-input responder with no prior message: the two-party loops start with
  \<open>msg = None\<close>, the relay loop calls the console-input responder without an argument.
\<close>

theorem first_call_without_message:
  "(\<exists>t. fst (sample2_main env) = Invoke UserAgent None # t)
   \<and> (\<exists>t. fst (sample3_main env) = Invoke UserAgent None # t)
   \<and> (\<exists>t. fst (sample4_main env) = Invoke UserAgent None # t)
   \<and> (\<exists>t. fst (main_py_main env) = Invoke UserAgent None # t)"
  by (simp add: sample3_main_eq main_py_main_eq sample2_main_def sample4_main_def
      sample2_loop_head sample4_loop_head)

text \<open>
  Claim C4. In the relay script (sample4_multi_agent.py), in any round: when the loop
  waits at the console and the console hands back a task \<open>T\<close> other than \<open>exit\<close>,
  the planner is invoked with \<open>T\<close>; when it answers with the plan \<open>P\<close>, the critic
  is invoked with \<open>P\<close> (not with \<open>T\<close>); when the critic answers with \<open>C\<close>, the
  contents of \<open>P\<close> and of \<open>C\<close> are printed, and the next call of the console-input
  responder is made with no prior message.
\<close>

theorem relay_round:
  assumes "snd (sample4_main pre) = Suspended"
    and "last (fst (sample4_main pre)) = Invoke UserAgent x"
    and "content T \<noteq> ''exit''"
  shows "\<exists>t. sample4_main (pre @ Returns T # Returns P # Returns C # rest) =
            (fst (sample4_main pre) @
               [Returned T,
                Print (Request_line (content T)), Print Planning_line,
                Invoke PlannerAgent (Some T), Returned P,
                Print (Plan_line (content P)), Print Reviewing_line,
                Invoke CriticAgent (Some P), Returned C,
                Print (Critique_line (content C)),
                Print Final_header,
                Print (Final_plan (content P)),
                Print (Final_critique (content C)),
                Print Final_footer, Print Next_task_line,
                Invoke UserAgent None] @ t,
             snd (sample4_main rest))"
proof -
  obtain t where t: "fst (sample4_loop rest) = Invoke UserAgent None # t"
    using sample4_loop_head by blast
  show ?thesis
    using sample4_main_resume [OF assms(1,2), of "Returns T # Returns P # Returns C # rest"]
      assms(3) t
    by (simp add: sample4_main_def split: prod.splits)
qed

theorem relay_round_witness:
  "snd (sample4_main []) = Suspended
   \<and> last (fst (sample4_main [])) = Invoke UserAgent None
   \<and> content (typed ''learn Python'') \<noteq> ''exit''
   \<and> sample4_main [Returns (typed ''learn Python''),
        Returns (answer ''Planner'' ''plan''), Returns (answer ''Critic'' ''critique'')] =
       ([Invoke UserAgent None, Returned (typed ''learn Python''),
         Print (Request_line ''learn Python''), Print Planning_line,
         Invoke PlannerAgent (Some (typed ''learn Python'')),
         Returned (answer ''Planner'' ''plan''),
         Print (Plan_line ''plan''), Print Reviewing_line,
         Invoke CriticAgent (Some (answer ''Planner'' ''plan'')),
         Returned (answer ''Critic'' ''critique''),
         Print (Critique_line ''critique''),
         Print Final_header, Print (Final_plan ''plan''),
         Print (Final_critique ''critique''),
         Print Final_footer, Print Next_task_line,
         Invoke UserAgent None], Suspended)"
proof -
  have s: "snd (sample4_main []) = Suspended"
    and l: "last (fst (sample4_main [])) = Invoke UserAgent None"
    by (simp_all add: sample4_main_def)
  have c: "content (typed ''learn Python'') \<noteq> ''exit''"
    by (simp add: typed_def)
  have e: "fst (sample4_main []) = [Invoke UserAgent None]"
    by (simp add: sample4_main_def)
  show ?thesis
    using s l c relay_round [OF s l c, of "answer ''Planner'' ''plan''"
        "answer ''Critic'' ''critique''" "[]"]
    by (simp add: e) (simp add: sample4_main_def typed_def answer_def)
qed

section \<open>Interrupts and errors\<close>













text \<open>
  Where the operator never interrupts, \<open>asyncio.run(main())\<close> ends the way \<open>main\<close>
  ends, and the scripts run as \<open>sample2_script\<close> and the others say.
\<close>

lemma runner_after_never: "runner_after n None fresh_runner tns = fresh_runner"
proof (induction n "None :: nat option" fresh_runner tns rule: runner_after.induct)
  case (3 n tn tns)
  have "on_turn False fresh_runner tn = fresh_runner"
    by (cases tn) (simp add: fresh_runner_def)
  with 3 show ?case by simp
qed simp_all

lemma task_end_fresh: "task_end fresh_runner r = r"
  by (cases "(fresh_runner, r)" rule: task_end.cases) (auto simp: fresh_runner_def)

lemma asyncio_run_never: "asyncio_run main None tns = main (hands_back tns)"
  by (simp add: asyncio_run_def runner_after_never task_end_fresh)

lemma entry_never:
  "sample2_entry None tns = sample2_script (hands_back tns)"
  "sample3_entry None tns = sample3_script (hands_back tns)"
  "sample4_entry None tns = sample4_script (hands_back tns)"
  "main_py_entry None tns = main_py_script (hands_back tns)"
  by (simp_all add: asyncio_run_never sample2_entry_def sample3_entry_def sample4_entry_def
      main_py_entry_def sample2_script_def sample3_script_def sample4_script_def
      main_py_script_def)




text \<open>
  Claim C9. Whenever a script is suspended in an awaited responder call and the call
  raises an error, that is an instance of \<open>Exception\<close> with description \<open>d\<close>:
  samples 2, 3 and 4 catch it in the handler of the entry point, print the error line
  with \<open>d\<close> and end; main.py has no such handler, so the exception leaves the script
  uncaught. In every script the run ends with the raised exception (and the handler's
  line): no responder is invoked again, whatever the environment would have answered.
\<close>

theorem error_reported_or_uncaught:
  "(snd (sample2_main pre) = Suspended \<longrightarrow>
      sample2_script (pre @ Raises (Exception d) # post) =
        (fst (sample2_main pre) @ [Raised (Exception d), Print (Error_line d)], Exited))
   \<and> (snd (sample3_main pre) = Suspended \<longrightarrow>
      sample3_script (pre @ Raises (Exception d) # post) =
        (fst (sample3_main pre) @ [Raised (Exception d), Print (Error_line d)], Exited))
   \<and> (snd (sample4_main pre) = Suspended \<longrightarrow>
      sample4_script (pre @ Raises (Exception d) # post) =
        (fst (sample4_main pre) @ [Raised (Exception d), Print (Error_line d)], Exited))
   \<and> (snd (main_py_main pre) = Suspended \<longrightarrow>
      main_py_script (pre @ Raises (Exception d) # post) =
        (fst (main_py_main pre) @ [Raised (Exception d)], Uncaught (Exception d)))"
  by (simp add: sample2_script_def sample3_script_def sample4_script_def main_py_script_def
      sample3_main_eq main_py_main_eq sample2_main_def sample4_main_def
      sample2_loop_raise sample4_loop_raise)

theorem error_reported_or_uncaught_witness:
  "sample2_script [Returns (typed ''Hi''), Raises (Exception ''connection refused''),
       Returns (answer ''Assistant'' ''too late'')] =
     ([Invoke UserAgent None, Returned (typed ''Hi''),
       Invoke AssistantAgent (Some (typed ''Hi'')),
       Raised (Exception ''connection refused''),
       Print (Error_line ''connection refused'')], Exited)
   \<and> sample3_script [Raises (Exception ''EOF'')] =
     ([Invoke UserAgent None, Raised (Exception ''EOF''), Print (Error_line ''EOF'')], Exited)
   \<and> sample4_script [Returns (typed ''task''), Raises (Exception ''connection refused'')] =
     ([Invoke UserAgent None, Returned (typed ''task''),
       Print (Request_line ''task''), Print Planning_line,
       Invoke PlannerAgent (Some (typed ''task'')),
       Raised (Exception ''connection refused''),
       Print (Error_line ''connection refused'')], Exited)
   \<and> main_py_script [Returns (typed ''Hi''), Raises (Exception ''connection refused''),
       Returns (answer ''Assistant'' ''too late'')] =
     ([Invoke UserAgent None, Returned (typed ''Hi''),
       Invoke AssistantAgent (Some (typed ''Hi'')),
       Raised (Exception ''connection refused'')],
      Uncaught (Exception ''connection refused''))"
proof -
  have s2: "snd (sample2_main [Returns (typed ''Hi'')]) = Suspended"
    and e2: "fst (sample2_main [Returns (typed ''Hi'')]) =
       [Invoke UserAgent None, Returned (typed ''Hi''),
        Invoke AssistantAgent (Some (typed ''Hi''))]"
    by (simp_all add: sample2_main_def typed_def)
  have sm: "snd (main_py_main [Returns (typed ''Hi'')]) = Suspended"
    and em: "fst (main_py_main [Returns (typed ''Hi'')]) =
       [Invoke UserAgent None, Returned (typed ''Hi''),
        Invoke AssistantAgent (Some (typed ''Hi''))]"
    by (simp_all add: main_py_main_def typed_def)
  have s3: "snd (sample3_main []) = Suspended"
    and e3: "fst (sample3_main []) = [Invoke UserAgent None]"
    by (simp_all add: sample3_main_def)
  have s4: "snd (sample4_main [Returns (typed ''task'')]) = Suspended"
    and e4: "fst (sample4_main [Returns (typed ''task'')]) =
      [Invoke UserAgent None, Returned (typed ''task''),
       Print (Request_line ''task''), Print Planning_line,
       Invoke PlannerAgent (Some (typed ''task''))]"
    by (simp_all add: sample4_main_def typed_def)
  show ?thesis
    using error_reported_or_uncaught [of "[Returns (typed ''Hi'')]" "''connection refused''"
        "[Returns (answer ''Assistant'' ''too late'')]"]
      error_reported_or_uncaught [of "[]" "''EOF''" "[]"]
      error_reported_or_uncaught [of "[Returns (typed ''task'')]" "''connection refused''" "[]"]
    by (simp add: s2 e2 sm em s3 e3 s4 e4)
qed

section \<open>One call at a time, in the order of the pipeline\<close>

lemma sample2_one_in_flight: "one_in_flight Free (fst (sample2_loop msg env))"
  by (induction msg env rule: sample2_loop.induct)
    (auto split: list.splits outcome.splits prod.splits)

lemma sample4_one_in_flight: "one_in_flight Free (fst (sample4_loop env))"
  by (induction env rule: sample4_loop.induct)
    (auto split: list.splits outcome.splits prod.splits)

text \<open>After an exception has left the loop, the handler's line may still follow.\<close>

lemma sample2_one_in_flight_handler:
  "snd (sample2_loop msg env) = Aborted e \<Longrightarrow>
   one_in_flight Free (fst (sample2_loop msg env) @ [Print p])"
  by (induction msg env rule: sample2_loop.induct)
    (auto split: list.splits outcome.splits prod.splits if_splits)

lemma sample4_one_in_flight_handler:
  "snd (sample4_loop env) = Aborted e \<Longrightarrow>
   one_in_flight Free (fst (sample4_loop env) @ [Print p])"
  by (induction env rule: sample4_loop.induct)
    (auto split: list.splits outcome.splits prod.splits if_splits)

lemma sample2_script_one_in_flight: "one_in_flight Free (fst (sample2_script env))"
proof (cases "snd (sample2_main env)")
  case Finished
  then show ?thesis
    using sample2_one_in_flight [of None env]
    by (cases "sample2_main env") (simp add: sample2_script_def sample2_main_def)
next
  case Suspended
  then show ?thesis
    using sample2_one_in_flight [of None env]
    by (cases "sample2_main env") (simp add: sample2_script_def sample2_main_def)
next
  case (Aborted e)
  then show ?thesis
    using sample2_one_in_flight [of None env] sample2_one_in_flight_handler [of None env e]
    by (cases "sample2_main env"; cases e) (simp_all add: sample2_script_def sample2_main_def)
qed

lemma sample4_script_one_in_flight: "one_in_flight Free (fst (sample4_script env))"
proof (cases "snd (sample4_main env)")
  case Finished
  then show ?thesis
    using sample4_one_in_flight [of env]
    by (cases "sample4_main env") (simp add: sample4_script_def sample4_main_def)
next
  case Suspended
  then show ?thesis
    using sample4_one_in_flight [of env]
    by (cases "sample4_main env") (simp add: sample4_script_def sample4_main_def)
next
  case (Aborted e)
  then show ?thesis
    using sample4_one_in_flight [of env] sample4_one_in_flight_handler [of env e]
    by (cases "sample4_main env"; cases e) (simp_all add: sample4_script_def sample4_main_def)
qed

text \<open>
  The reading tells runs apart: a turn begun after the turn before it has raised, and so
  without its result, is not accepted, and neither is a turn begun while another is
  outstanding.
\<close>

lemma one_in_flight_refuses_turn_after_raise:
  "\<not> one_in_flight Free
       [Invoke UserAgent None, Returned u, Invoke PlannerAgent (Some u), Raised e,
        Invoke CriticAgent x]"
  by simp

lemma one_in_flight_refuses_overlap:
  "\<not> one_in_flight Free
       [Invoke UserAgent None, Returned u, Invoke PlannerAgent (Some u),
        Invoke CriticAgent x, Returned p, Returned c]"
  by simp

lemma invoked_sample2_loop:
  "i < length (invoked (fst (sample2_loop msg env))) \<Longrightarrow>
   invoked (fst (sample2_loop msg env)) ! i = [UserAgent, AssistantAgent] ! (i mod 2)"
proof (induction msg env arbitrary: i rule: sample2_loop.induct)
  case (1 msg)
  then show ?case by simp
next
  case (2 msg e rest)
  then show ?case by simp
next
  case (3 msg m rest)
  show ?case
  proof (cases "content m = ''exit''")
    case True
    with 3(2) show ?thesis by simp
  next
    case ne: False
    show ?thesis
    proof (cases rest)
      case Nil
      with 3(2) ne show ?thesis by (cases i) auto
    next
      case (Cons o1 rest')
      show ?thesis
      proof (cases o1)
        case (Raises e)
        with 3(2) ne Cons show ?thesis by (cases i) auto
      next
        case (Returns r)
        obtain t s where ts: "sample2_loop (Some r) rest' = (t, s)"
          by (cases "sample2_loop (Some r) rest'")
        have eq: "invoked (fst (sample2_loop msg (Returns m # rest))) =
                  UserAgent # AssistantAgent # invoked t"
          using ne Cons Returns ts by simp
        show ?thesis
        proof (cases "i < 2")
          case True
          then have "i = 0 \<or> i = 1" by arith
          then show ?thesis using eq by auto
        next
          case False
          then have j: "i = Suc (Suc (i - 2))" by arith
          with 3(2) eq have "i - 2 < length (invoked (fst (sample2_loop (Some r) rest')))"
            using ts by simp
          from 3(1) [OF ne Cons Returns this] eq ts
          have "invoked (fst (sample2_loop msg (Returns m # rest))) ! Suc (Suc (i - 2)) =
              [UserAgent, AssistantAgent] ! ((i - 2) mod 2)"
            by simp
          moreover have "(i - 2) mod 2 = i mod 2"
            using False by (simp add: mod_if)
          ultimately show ?thesis using j by simp
        qed
      qed
    qed
  qed
qed

lemma invoked_sample4_loop:
  "i < length (invoked (fst (sample4_loop env))) \<Longrightarrow>
   invoked (fst (sample4_loop env)) ! i =
     [UserAgent, PlannerAgent, CriticAgent] ! (i mod 3)"
proof (induction env arbitrary: i rule: sample4_loop.induct)
  case 1
  then show ?case by simp
next
  case (2 e rest)
  then show ?case by simp
next
  case (3 u rest)
  show ?case
  proof (cases "content u = ''exit''")
    case True
    with 3(2) show ?thesis by simp
  next
    case ne: False
    show ?thesis
    proof (cases rest)
      case Nil
      with 3(2) ne show ?thesis by (cases i) auto
    next
      case c1: (Cons o1 rest')
      show ?thesis
      proof (cases o1)
        case (Raises e)
        with 3(2) ne c1 show ?thesis by (cases i) auto
      next
        case p: (Returns p)
        show ?thesis
        proof (cases rest')
          case Nil
          with 3(2) ne c1 p have "i < 3" by simp
          then have "i = 0 \<or> i = 1 \<or> i = 2" by arith
          with ne c1 p Nil show ?thesis by auto
        next
          case c2: (Cons o2 rest'')
          show ?thesis
          proof (cases o2)
            case (Raises e)
            with 3(2) ne c1 p c2 have "i < 3" by simp
            then have "i = 0 \<or> i = 1 \<or> i = 2" by arith
            with ne c1 p c2 Raises show ?thesis by auto
          next
            case c: (Returns c)
            obtain t s where ts: "sample4_loop rest'' = (t, s)"
              by (cases "sample4_loop rest''")
            have eq: "invoked (fst (sample4_loop (Returns u # rest))) =
                UserAgent # PlannerAgent # CriticAgent # invoked t"
              using ne c1 p c2 c ts by simp
            show ?thesis
            proof (cases "i < 3")
              case True
              then have "i = 0 \<or> i = 1 \<or> i = 2" by arith
              then show ?thesis using eq by auto
            next
              case False
              then have j: "i = Suc (Suc (Suc (i - 3)))" by arith
              with 3(2) eq have "i - 3 < length (invoked (fst (sample4_loop rest'')))"
                using ts by simp
              from 3(1) [OF ne c1 p c2 c this] eq ts
              have "invoked (fst (sample4_loop (Returns u # rest))) ! Suc (Suc (Suc (i - 3))) =
                  [UserAgent, PlannerAgent, CriticAgent] ! ((i - 3) mod 3)"
                by simp
              moreover have "(i - 3) mod 3 = i mod 3"
                using False by (simp add: mod_if)
              ultimately show ?thesis using j by simp
            qed
          qed
        qed
      qed
    qed
  qed
qed

text \<open>
  Claim C7. In every run of the relay script and of the two-party script, responder
  calls never overlap and never run ahead of a result: a call begins only at the start
  of the run or after the call before it has handed back its message, so a later turn
  (the critic's) never begins before the earlier turn's (the planner's) result is there,
  and after a call has raised no turn begins at all. The calls begin in the order of the
  pipeline, round after round: console, planner, critic in the relay script; console,
  assistant in the two-party script.
\<close>

theorem turns_strictly_sequential:
  "one_in_flight Free (fst (sample4_script env))
   \<and> one_in_flight Free (fst (sample2_script env))
   \<and> one_in_flight Free (fst (sample4_main env))
   \<and> one_in_flight Free (fst (sample2_main env))
   \<and> (\<forall>i < length (invoked (fst (sample4_main env))).
        invoked (fst (sample4_main env)) ! i =
          [UserAgent, PlannerAgent, CriticAgent] ! (i mod 3))
   \<and> (\<forall>i < length (invoked (fst (sample2_main env))).
        invoked (fst (sample2_main env)) ! i = [UserAgent, AssistantAgent] ! (i mod 2))"
  by (simp add: sample2_main_def sample4_main_def sample2_one_in_flight
      sample4_one_in_flight sample2_script_one_in_flight sample4_script_one_in_flight
      invoked_sample2_loop invoked_sample4_loop)

theorem turns_strictly_sequential_witness:
  "one_in_flight Free
     [Invoke UserAgent None, Returned (typed ''task''),
      Print (Request_line ''task''), Print Planning_line,
      Invoke PlannerAgent (Some (typed ''task'')),
      Returned (answer ''Planner'' ''plan''),
      Print (Plan_line ''plan''), Print Reviewing_line,
      Invoke CriticAgent (Some (answer ''Planner'' ''plan''))]
   \<and> (2::nat) < length (invoked (fst (sample4_main [Returns (typed ''task''),
        Returns (answer ''Planner'' ''plan'')])))
   \<and> invoked (fst (sample4_main [Returns (typed ''task''),
        Returns (answer ''Planner'' ''plan'')])) ! 2 = CriticAgent
   \<and> (1::nat) < length (invoked (fst (sample2_main [Returns (typed ''Hi'')])))
   \<and> invoked (fst (sample2_main [Returns (typed ''Hi'')])) ! 1 = AssistantAgent"
proof -
  have e4: "fst (sample4_main [Returns (typed ''task''),
       Returns (answer ''Planner'' ''plan'')]) =
      [Invoke UserAgent None, Returned (typed ''task''),
       Print (Request_line ''task''), Print Planning_line,
       Invoke PlannerAgent (Some (typed ''task'')),
       Returned (answer ''Planner'' ''plan''),
       Print (Plan_line ''plan''), Print Reviewing_line,
       Invoke CriticAgent (Some (answer ''Planner'' ''plan''))]"
    by (simp add: sample4_main_def typed_def answer_def)
  have e2: "fst (sample2_main [Returns (typed ''Hi'')]) =
       [Invoke UserAgent None, Returned (typed ''Hi''),
        Invoke AssistantAgent (Some (typed ''Hi''))]"
    by (simp add: sample2_main_def typed_def)
  have l4: "(2::nat) < length (invoked (fst (sample4_main [Returns (typed ''task''),
        Returns (answer ''Planner'' ''plan'')])))"
    and l2: "(1::nat) < length (invoked (fst (sample2_main [Returns (typed ''Hi'')])))"
    by (simp_all add: e4 e2)
  from turns_strictly_sequential [of "[Returns (typed ''task''),
        Returns (answer ''Planner'' ''plan'')]"]
  have a: "one_in_flight Free (fst (sample4_main [Returns (typed ''task''),
        Returns (answer ''Planner'' ''plan'')]))"
    and b: "invoked (fst (sample4_main [Returns (typed ''task''),
        Returns (answer ''Planner'' ''plan'')])) ! 2 =
          [UserAgent, PlannerAgent, CriticAgent] ! (2 mod 3)"
    using l4 by blast+
  from turns_strictly_sequential [of "[Returns (typed ''Hi'')]"] l2
  have c: "invoked (fst (sample2_main [Returns (typed ''Hi'')])) ! 1 =
          [UserAgent, AssistantAgent] ! (1 mod 2)"
    by blast
  from a have a': "one_in_flight Free
     [Invoke UserAgent None, Returned (typed ''task''),
      Print (Request_line ''task''), Print Planning_line,
      Invoke PlannerAgent (Some (typed ''task'')),
      Returned (answer ''Planner'' ''plan''),
      Print (Plan_line ''plan''), Print Reviewing_line,
      Invoke CriticAgent (Some (answer ''Planner'' ''plan''))]"
    by (simp only: e4)
  from b have b': "invoked (fst (sample4_main [Returns (typed ''task''),
        Returns (answer ''Planner'' ''plan'')])) ! 2 = CriticAgent"
    by simp
  from c have c': "invoked (fst (sample2_main [Returns (typed ''Hi'')])) ! 1 = AssistantAgent"
    by simp
  from a' l4 b' l2 c' show ?thesis by blast
qed

end
